theory Spec2Isabelle
  imports Main "HOL-Library.Sublist"
begin

section \<open>JavaScript strings and arrays\<close>

text \<open>
  A JavaScript string is modelled as a \<^typ>\<open>string\<close>: a list of code units, here the
  code units below 256. The operations below are the ones the classifier calls.
\<close>

definition newline :: char where
  "newline = CHR 0x0A"

text \<open>
  The character class \<^verbatim>\<open>\s\<close> of a regular expression, which is also the set that
  \<^verbatim>\<open>String.prototype.trim\<close> removes: tab, line feed, vertical tab, form feed,
  carriage return, space and the no-break space (the members below 256).
\<close>

definition is_space :: "char \<Rightarrow> bool" where
  "is_space c = (c \<in> {CHR 0x09, CHR 0x0A, CHR 0x0B, CHR 0x0C, CHR 0x0D, CHR 0x20, CHR 0xA0})"

text \<open>The character class \<^verbatim>\<open>\w\<close>: \<^verbatim>\<open>[A-Za-z0-9_]\<close>.\<close>

definition is_word :: "char \<Rightarrow> bool" where
  "is_word c = (let n = of_char c :: nat in
     (65 \<le> n \<and> n \<le> 90) \<or> (97 \<le> n \<and> n \<le> 122) \<or> (48 \<le> n \<and> n \<le> 57) \<or> n = 95)"

text \<open>
  \<^verbatim>\<open>toLowerCase\<close>. The classifier applies it to the text captured by \<^verbatim>\<open>(\w*)\<close>
  only, where the letters it can change are \<^verbatim>\<open>A-Z\<close>.
\<close>

definition lower_char :: "char \<Rightarrow> char" where
  "lower_char c = (let n = of_char c :: nat in
     if 65 \<le> n \<and> n \<le> 90 then char_of (n + 32) else c)"

definition toLowerCase :: "string \<Rightarrow> string" where
  "toLowerCase s = map lower_char s"

definition trim :: "string \<Rightarrow> string" where
  "trim s = rev (dropWhile is_space (rev (dropWhile is_space s)))"

text \<open>
  \<^verbatim>\<open>s.split('\n')\<close>: the pieces between line feeds; the result is never empty
  (the empty string gives one empty piece).
\<close>

fun split_nl :: "string \<Rightarrow> string list" where
  "split_nl [] = [[]]"
| "split_nl (c # cs) =
     (if c = newline then [] # split_nl cs
      else (case split_nl cs of
              l # ls \<Rightarrow> (c # l) # ls
            | [] \<Rightarrow> [[c]]))"

text \<open>\<^verbatim>\<open>a.join('\n')\<close>; the empty array gives the empty string.\<close>

fun join_nl :: "string list \<Rightarrow> string" where
  "join_nl [] = []"
| "join_nl [l] = l"
| "join_nl (l # ls) = l @ newline # join_nl ls"

text \<open>
  \<^verbatim>\<open>a.slice(start, end)\<close>: a negative index counts from the end, both indices
  are clamped to the array, and an empty range gives the empty array.
\<close>

definition slice :: "int \<Rightarrow> int \<Rightarrow> 'a list \<Rightarrow> 'a list" where
  "slice start fin xs =
     (let len = int (length xs);
          k = (if start < 0 then max (len + start) 0 else min start len);
          final = (if fin < 0 then max (len + fin) 0 else min fin len)
      in take (nat (final - k)) (drop (nat k) xs))"

text \<open>\<^verbatim>\<open>s.includes(t)\<close>: \<open>t\<close> occurs in \<open>s\<close> as a contiguous substring.\<close>

fun includes_str :: "string \<Rightarrow> string \<Rightarrow> bool" where
  "includes_str [] t = (t = [])"
| "includes_str (c # cs) t = (prefix t (c # cs) \<or> includes_str cs t)"

section \<open>The language classifier\<close>

text \<open>\<^verbatim>\<open>type CodeLanguage = 'python' | 'javascript' | 'typescript'\<close>\<close>

datatype CodeLanguage = Python | Javascript | Typescript

record CodeBlockInfo =
  cleanedCode :: string
  language :: CodeLanguage

text \<open>
  \<^verbatim>\<open>code.match(/^\s*```(\w*)\s*\n/)\<close>, giving the first capture group of the
  match, or \<open>None\<close> when the expression does not match. The expression is anchored
  at the start of the input (no \<^verbatim>\<open>m\<close> flag). The three backticks are no white space,
  so the leading \<^verbatim>\<open>\s*\<close> takes the whole leading run of white space; no character
  of \<^verbatim>\<open>\w\<close> is white space, so the group takes the whole run of word characters
  after the backticks; the rest \<^verbatim>\<open>\s*\n\<close> matches exactly when the run of white space
  that follows holds a line feed. Lemma \<open>codeBlockRegex_iff\<close> below relates this
  function to the language of the expression.
\<close>

definition backticks :: string where
  "backticks = ''```''"

definition codeBlockRegex :: "string \<Rightarrow> string option" where
  "codeBlockRegex code =
     (let r1 = dropWhile is_space code in
      if take 3 r1 = backticks then
        (let r2 = drop 3 r1;
             tag = takeWhile is_word r2;
             r3 = dropWhile is_word r2
         in if newline \<in> set (takeWhile is_space r3) then Some tag else None)
      else None)"

definition detectLanguageFromContent :: "string \<Rightarrow> CodeLanguage" where
  "detectLanguageFromContent content =
     (if includes_str content ''def '' \<or>
         includes_str content ''import '' \<or>
         includes_str content ''print('' \<or>
         includes_str content (''if __name__ == '' @ [CHR 0x22] @ ''__main__'' @ [CHR 0x22])
      then Python
      else if includes_str content '': string'' \<or>
              includes_str content '': number'' \<or>
              includes_str content '': boolean'' \<or>
              includes_str content ''interface '' \<or>
              includes_str content ''type '' \<or>
              (includes_str content ''<'' \<and> includes_str content ''>'' \<and> includes_str content ''extends'')
      then Typescript
      else Javascript)"

definition parseCodeBlockMarkers :: "string \<Rightarrow> CodeBlockInfo" where
  "parseCodeBlockMarkers code =
     (case codeBlockRegex code of
        Some m1 \<Rightarrow>
          (let langTag = trim (toLowerCase m1);
               cleaned = join_nl (slice 1 (- 1) (split_nl code))
           in \<lparr>cleanedCode = cleaned,
               language =
                 (if langTag = ''python'' \<or> langTag = ''py'' then Python
                  else if langTag = ''typescript'' \<or> langTag = ''ts'' then Typescript
                  else if langTag = ''javascript'' \<or> langTag = ''js'' then Javascript
                  else detectLanguageFromContent cleaned)\<rparr>)
      | None \<Rightarrow> \<lparr>cleanedCode = code, language = detectLanguageFromContent code\<rparr>)"

text \<open>
  The content rules in the words of the specification: rule (1) looks for \<^verbatim>\<open>def \<close>,
  \<^verbatim>\<open>import \<close>, \<^verbatim>\<open>print(\<close> or the main-guard idiom; rule (2) for \<^verbatim>\<open>: string\<close>,
  \<^verbatim>\<open>: number\<close>, \<^verbatim>\<open>: boolean\<close>, the keywords \<^verbatim>\<open>interface\<close> and \<^verbatim>\<open>type\<close> followed
  by a space, or both angle brackets together with \<^verbatim>\<open>extends\<close>.
\<close>

definition python_markers :: "string \<Rightarrow> bool" where
  "python_markers body =
     (\<exists>m \<in> {''def '', ''import '', ''print('', ''if __name__ == '' @ [CHR 0x22] @ ''__main__'' @ [CHR 0x22]}.
        includes_str body m)"

definition typescript_markers :: "string \<Rightarrow> bool" where
  "typescript_markers body =
     ((\<exists>m \<in> {'': string'', '': number'', '': boolean'', ''interface '', ''type ''}.
         includes_str body m) \<or>
      (\<forall>m \<in> {''<'', ''>'', ''extends''}. includes_str body m))"

section \<open>The script sandbox\<close>

subsection \<open>The singleton sandbox\<close>

text \<open>
  The module state of \<^verbatim>\<open>provider.tsx\<close>: the variable \<^verbatim>\<open>webcontainerInstance\<close>
  (\<^verbatim>\<open>null\<close> or the stored promise) and \<^verbatim>\<open>webcontainerContext.loaded\<close>. Promise
  objects are told apart by a number, taken from a counter of the promises created so
  far; \<open>boots\<close> counts the calls of \<^verbatim>\<open>WebContainer.boot\<close>.
\<close>

record provider_state =
  webcontainerInstance :: "nat option"
  loaded :: bool
  promises :: nat
  boots :: nat

definition initial_state :: provider_state where
  "initial_state = \<lparr>webcontainerInstance = None, loaded = False, promises = 0, boots = 0\<rparr>"

text \<open>
  \<^verbatim>\<open>getWebContainer()\<close>. The first argument says whether \<^verbatim>\<open>window\<close> is defined.
  The function runs without suspending, so a call is one step on the state; it gives
  the promise it returns and the new state.
\<close>

definition getWebContainer :: "bool \<Rightarrow> provider_state \<Rightarrow> nat \<times> provider_state" where
  "getWebContainer has_window s =
     (if \<not> has_window then (promises s, s\<lparr>promises := promises s + 1\<rparr>)
      else (case webcontainerInstance s of
              None \<Rightarrow>
                (promises s,
                 s\<lparr>webcontainerInstance := Some (promises s),
                   promises := promises s + 1,
                   boots := boots s + 1\<rparr>)
            | Some p \<Rightarrow> (p, s)))"

text \<open>
  What can happen to the module state: a caller calls \<^verbatim>\<open>getWebContainer\<close>, or the
  continuation of the boot promise (mount, install) runs to its end and sets
  \<^verbatim>\<open>loaded\<close>. The continuation exists only once a boot promise does.
\<close>

datatype event = Call | Boot_resolves

fun run_events :: "bool \<Rightarrow> event list \<Rightarrow> provider_state \<Rightarrow> nat list \<times> provider_state" where
  "run_events has_window [] s = ([], s)"
| "run_events has_window (Call # es) s =
     (let (p, s') = getWebContainer has_window s;
          (ps, s'') = run_events has_window es s'
      in (p # ps, s''))"
| "run_events has_window (Boot_resolves # es) s =
     run_events has_window es
       (if webcontainerInstance s = None then s else s\<lparr>loaded := True\<rparr>)"

subsection \<open>Temporary files\<close>

text \<open>The decimal digits of a number, as a template literal prints \<^verbatim>\<open>Date.now()\<close>.\<close>

definition digit_char :: "nat \<Rightarrow> char" where
  "digit_char d = ''0123456789'' ! d"

fun string_of_nat :: "nat \<Rightarrow> string" where
  "string_of_nat n =
     (if n < 10 then [digit_char n]
      else string_of_nat (n div 10) @ [digit_char (n mod 10)])"

declare string_of_nat.simps [simp del]

definition jsFilename_of :: "nat \<Rightarrow> string" where
  "jsFilename_of timestamp = ''code-'' @ string_of_nat timestamp @ ''.js''"

definition tsFilename_of :: "nat \<Rightarrow> string" where
  "tsFilename_of timestamp = ''code-'' @ string_of_nat timestamp @ ''.ts''"

text \<open>\<^verbatim>\<open>tsFilename.replace(/\.ts$/, '.js')\<close>\<close>

definition replace_ts_js :: "string \<Rightarrow> string" where
  "replace_ts_js f = (if suffix ''.ts'' f then take (length f - 3) f @ ''.js'' else f)"

text \<open>The sandbox's file system, and \<^verbatim>\<open>fs.writeFile\<close> on it.\<close>

type_synonym files = "string \<rightharpoonup> string"

definition writeFile :: "files \<Rightarrow> string \<Rightarrow> string \<Rightarrow> files" where
  "writeFile fs path text = fs(path \<mapsto> text)"

text \<open>
  The first steps of \<^verbatim>\<open>executeJsCode\<close>, up to the suspension at
  \<^verbatim>\<open>webcontainer.spawn\<close>: read the clock, name the file, write the source.
\<close>

definition executeJsCode_write :: "nat \<Rightarrow> string \<Rightarrow> files \<Rightarrow> files" where
  "executeJsCode_write timestamp code fs = writeFile fs (jsFilename_of timestamp) code"

subsection \<open>Running a script\<close>

text \<open>
  What the sandbox does during one run is an input of the model:
  \<^item> \<open>import_error\<close>: the message when the dynamic import of the provider module fails;
  \<^item> \<open>boot_error\<close>: the message when the promise of \<^verbatim>\<open>getWebContainer\<close> rejects;
  \<^item> \<open>now\<close>: what \<^verbatim>\<open>Date.now()\<close> returns;
  \<^item> \<open>tsc\<close>: what \<^verbatim>\<open>npx tsc\<close> does on a file name and its text;
  \<^item> \<open>node\<close>: what \<^verbatim>\<open>node\<close> does on a file name and its text.
\<close>

text \<open>
  A spawned \<^verbatim>\<open>node\<close> process: either a step before its exit raises (writing the file,
  spawning, awaiting the exit), with the message the \<^verbatim>\<open>catch\<close> block computes, or it
  exits with a code; the chunks are the ones its output stream had given to
  \<^verbatim>\<open>outputChunks\<close> by then.
\<close>

datatype proc_result = Throws string | Exits "string list" int

text \<open>
  The compiler: either a step of \<^verbatim>\<open>compileTsWithTsc\<close> raises, or the process exits
  with a code after printing diagnostics; the third field is what reading the
  compiled file gives afterwards (\<open>None\<close> when \<^verbatim>\<open>readFile\<close> raises).
\<close>

datatype tsc_result = Tsc_throws | Tsc_exits "string list" int "string option"

record sandbox_env =
  import_error :: "string option"
  boot_error :: "string option"
  now :: nat
  tsc :: "string \<Rightarrow> string \<Rightarrow> tsc_result"
  node :: "string \<Rightarrow> string \<Rightarrow> proc_result"

text \<open>The result type \<^verbatim>\<open>{ output: string; error?: string }\<close>; the field \<^verbatim>\<open>output\<close> is \<open>output_str\<close> here.\<close>

record exec_result =
  output_str :: string
  error :: "string option"

text \<open>
  \<^verbatim>\<open>compileTsWithTsc\<close> gives the name of the compiled file, or \<open>None\<close> for
  \<^verbatim>\<open>undefined\<close>. The diagnostics are joined and logged, and reach no result; the
  text of the compiled file is returned beside the name, for the process that runs it.
\<close>

definition compileTsWithTsc :: "sandbox_env \<Rightarrow> string \<Rightarrow> string \<Rightarrow> (string \<times> string) option" where
  "compileTsWithTsc env tsCode tsFilename =
     (let jsFilename = replace_ts_js tsFilename in
      case tsc env tsFilename tsCode of
        Tsc_throws \<Rightarrow> None
      | Tsc_exits errorChunks exitCode compiled \<Rightarrow>
          if exitCode \<noteq> 0 then
            (case compiled of Some js \<Rightarrow> Some (jsFilename, js) | None \<Rightarrow> None)
          else
            (case compiled of Some js \<Rightarrow> Some (jsFilename, js) | None \<Rightarrow> None))"

text \<open>
  The common end of both executors, from the spawn of \<^verbatim>\<open>node\<close> on:
  \<^verbatim>\<open>stdout || ''\<close> is \<^verbatim>\<open>stdout\<close>, and \<^verbatim>\<open>stdout || 'Code executed ...'\<close> replaces the
  empty string.
\<close>

definition run_node :: "sandbox_env \<Rightarrow> string \<Rightarrow> string \<Rightarrow> exec_result" where
  "run_node env filename text =
     (case node env filename text of
        Throws msg \<Rightarrow> \<lparr>output_str = '''', error = Some msg\<rparr>
      | Exits outputChunks exitCode \<Rightarrow>
          (let stdout = concat outputChunks in
           if exitCode \<noteq> 0 then \<lparr>output_str = stdout, error = Some ''Execution failed''\<rparr>
           else \<lparr>output_str = (if stdout = '''' then ''Code executed successfully (no output)''
                            else stdout),
                  error = None\<rparr>))"

definition executeTypeScript :: "sandbox_env \<Rightarrow> string \<Rightarrow> exec_result" where
  "executeTypeScript env code =
     (case boot_error env of
        Some msg \<Rightarrow> \<lparr>output_str = '''', error = Some msg\<rparr>
      | None \<Rightarrow>
          (let tsFilename = tsFilename_of (now env) in
           case compileTsWithTsc env code tsFilename of
             None \<Rightarrow>
               \<lparr>output_str = '''',
                error = Some ''TypeScript compilation failed - could not generate JavaScript file''\<rparr>
           | Some (jsFilename, js) \<Rightarrow> run_node env jsFilename js))"

definition executeJsCode :: "sandbox_env \<Rightarrow> string \<Rightarrow> exec_result" where
  "executeJsCode env code =
     (case boot_error env of
        Some msg \<Rightarrow> \<lparr>output_str = '''', error = Some msg\<rparr>
      | None \<Rightarrow> run_node env (jsFilename_of (now env)) code)"

definition executeJsOrTs :: "sandbox_env \<Rightarrow> string \<Rightarrow> CodeLanguage \<Rightarrow> exec_result" where
  "executeJsOrTs env code lang =
     (case import_error env of
        Some msg \<Rightarrow> \<lparr>output_str = '''', error = Some msg\<rparr>
      | None \<Rightarrow>
          if lang = Typescript then executeTypeScript env code
          else executeJsCode env code)"

section \<open>The run action of the code artifact\<close>

text \<open>
  The console types: a content is \<^verbatim>\<open>{ type: 'text' | 'image', value: string }\<close>, a
  console output is \<^verbatim>\<open>{ id, contents, status }\<close>. The status is kept as the string the
  code writes.
\<close>

datatype content_type = Text | Image

record ConsoleOutputContent =
  content_type :: content_type
  content_value :: string

record ConsoleOutput =
  output_id :: string
  contents :: "ConsoleOutputContent list"
  status :: string

text \<open>
  The tracker is \<^verbatim>\<open>metadata.outputs\<close>. The handler changes it through
  \<^verbatim>\<open>setMetadata\<close> with two shapes of updater only: the first appends a record,
  \<^verbatim>\<open>[...metadata.outputs, r]\<close>; every other one drops the records of the run's id and
  appends one, \<^verbatim>\<open>[...metadata.outputs.filter((output) => output.id !== runId), r]\<close>.
\<close>

datatype update = Append ConsoleOutput | Replace ConsoleOutput

fun record_of :: "update \<Rightarrow> ConsoleOutput" where
  "record_of (Append r) = r"
| "record_of (Replace r) = r"

fun setMetadata :: "update \<Rightarrow> ConsoleOutput list \<Rightarrow> ConsoleOutput list" where
  "setMetadata (Append r) outputs = outputs @ [r]"
| "setMetadata (Replace r) outputs =
     filter (\<lambda>output. output_id output \<noteq> output_id r) outputs @ [r]"

text \<open>The tracker after a sequence of updates, applied in order.\<close>

definition tracker_after :: "ConsoleOutput list \<Rightarrow> update list \<Rightarrow> ConsoleOutput list" where
  "tracker_after outputs us = foldl (\<lambda>os u. setMetadata u os) outputs us"

text \<open>
  What the interpreter does during one Python run is an input of the model:
  \<^item> \<open>messages\<close>: the calls of \<^verbatim>\<open>messageCallback\<close> made by
    \<^verbatim>\<open>loadPackagesFromImports\<close>, in order;
  \<^item> \<open>batched\<close>: the lines given to the standard output callback, in order;
  \<^item> \<open>raised\<close>: \<^verbatim>\<open>error.message\<close> of the exception that ended the \<^verbatim>\<open>try\<close> block
    (raised by \<^verbatim>\<open>loadPyodide\<close>, \<^verbatim>\<open>loadPackagesFromImports\<close> or
    \<^verbatim>\<open>runPythonAsync\<close>), or \<open>None\<close> when the block ran to its end. The messages and
    lines are then the ones that came before the exception.
\<close>

record pyodide_env =
  messages :: "string list"
  batched :: "string list"
  raised :: "string option"

text \<open>
  The truth value of an optional string in a condition: \<^verbatim>\<open>undefined\<close> and the empty
  string are false.
\<close>

definition truthy :: "string option \<Rightarrow> bool" where
  "truthy e = (case e of None \<Rightarrow> False | Some s \<Rightarrow> s \<noteq> '''')"

text \<open>The standard output callback: one content for each line.\<close>

definition stdout_content :: "string \<Rightarrow> ConsoleOutputContent" where
  "stdout_content line =
     \<lparr>content_type = (if prefix ''data:image/png;base64'' line then Image else Text),
      content_value = line\<rparr>"

text \<open>
  \<^verbatim>\<open>actions[0].onClick\<close>: the updates of the tracker that one click makes, in order.
  \<open>runId\<close> is what \<^verbatim>\<open>generateUUID()\<close> returned. In the last update of the script
  branch the error is read with \<open>the\<close> only where \<open>truthy\<close> says it is there. These are
  the updates of a run in which every step that the handler awaits settles;
  \<open>onClick_awaiting\<close> below is the handler without that condition.
\<close>

definition onClick :: "sandbox_env \<Rightarrow> pyodide_env \<Rightarrow> string \<Rightarrow> string \<Rightarrow> update list" where
  "onClick env py runId content =
     (let info = parseCodeBlockMarkers content;
          started = Append \<lparr>output_id = runId, contents = [], status = ''in_progress''\<rparr>
      in
      if language info = Javascript \<or> language info = Typescript then
        (let res = executeJsOrTs env (cleanedCode info) (language info);
             success = \<not> truthy (error res)
         in [started,
             Replace \<lparr>output_id = runId,
                      contents = [\<lparr>content_type = Text,
                                   content_value = ''Running JavaScript in WebContainer...''\<rparr>],
                      status = ''loading_packages''\<rparr>,
             Replace \<lparr>output_id = runId,
                      contents = [\<lparr>content_type = Text,
                                   content_value =
                                     ''Running '' @
                                     (if language info = Typescript then ''TypeScript''
                                      else ''JavaScript'') @
                                     '' code...''\<rparr>],
                      status = ''loading_packages''\<rparr>,
             Replace \<lparr>output_id = runId,
                      contents = [\<lparr>content_type = Text,
                                   content_value =
                                     (if truthy (error res) then ''Error: '' @ the (error res)
                                      else if output_str res = '''' then
                                        ''Code executed successfully with no output''
                                      else output_str res)\<rparr>],
                      status = (if success then ''completed'' else ''failed'')\<rparr>])
      else
        started #
        map (\<lambda>message. Replace \<lparr>output_id = runId,
                                   contents = [\<lparr>content_type = Text, content_value = message\<rparr>],
                                   status = ''loading_packages''\<rparr>)
            (messages py) @
        [case raised py of
           None \<Rightarrow>
             Replace \<lparr>output_id = runId,
                      contents = map stdout_content (batched py),
                      status = ''completed''\<rparr>
         | Some message \<Rightarrow>
             Replace \<lparr>output_id = runId,
                      contents = [\<lparr>content_type = Text, content_value = message\<rparr>],
                      status = ''failed''\<rparr>])"

text \<open>The record that the last update of a run carries.\<close>

definition final_record :: "sandbox_env \<Rightarrow> pyodide_env \<Rightarrow> string \<Rightarrow> string \<Rightarrow> ConsoleOutput" where
  "final_record env py runId content = record_of (last (onClick env py runId content))"

text \<open>
  The handler awaits, with no timeout, the dynamic import of the provider module, the
  boot promise, the file operations and the exits of the compiler and of \<^verbatim>\<open>node\<close>
  (script branch), and \<^verbatim>\<open>loadPyodide\<close>, \<^verbatim>\<open>loadPackagesFromImports\<close> and
  \<^verbatim>\<open>runPythonAsync\<close> (Python branch). \<open>settles\<close> says whether every step that the
  run awaits settles, that is resolves or rejects. When one of them never settles, the
  handler stays suspended at it: the updates written before the terminal one have been
  made (in the Python branch \<open>messages py\<close> are then the package messages that came),
  and nothing more is written.
\<close>

definition onClick_awaiting ::
    "bool \<Rightarrow> sandbox_env \<Rightarrow> pyodide_env \<Rightarrow> string \<Rightarrow> string \<Rightarrow> update list" where
  "onClick_awaiting settles env py runId content =
     (if settles then onClick env py runId content
      else
        (let info = parseCodeBlockMarkers content;
             started = Append \<lparr>output_id = runId, contents = [], status = ''in_progress''\<rparr>
         in
         if language info = Javascript \<or> language info = Typescript then
           [started,
            Replace \<lparr>output_id = runId,
                     contents = [\<lparr>content_type = Text,
                                  content_value = ''Running JavaScript in WebContainer...''\<rparr>],
                     status = ''loading_packages''\<rparr>,
            Replace \<lparr>output_id = runId,
                     contents = [\<lparr>content_type = Text,
                                  content_value =
                                    ''Running '' @
                                    (if language info = Typescript then ''TypeScript''
                                     else ''JavaScript'') @
                                    '' code...''\<rparr>],
                     status = ''loading_packages''\<rparr>]
         else
           started #
           map (\<lambda>message. Replace \<lparr>output_id = runId,
                                      contents = [\<lparr>content_type = Text, content_value = message\<rparr>],
                                      status = ''loading_packages''\<rparr>)
               (messages py)))"

subsection \<open>Sandboxes with a fixed behaviour\<close>

text \<open>
  A \<^verbatim>\<open>node\<close> that prints the given chunks and exits with the given code whatever the
  file, and a compiler that prints the given diagnostics, exits with the given code
  and leaves the given compiled text (or none); they build the concrete runs below.
\<close>

definition node_exits :: "string list \<Rightarrow> int \<Rightarrow> string \<Rightarrow> string \<Rightarrow> proc_result" where
  "node_exits outputChunks exitCode filename text = Exits outputChunks exitCode"

definition tsc_exits :: "string list \<Rightarrow> int \<Rightarrow> string option \<Rightarrow> string \<Rightarrow> string \<Rightarrow> tsc_result" where
  "tsc_exits errorChunks exitCode compiled filename text = Tsc_exits errorChunks exitCode compiled"

section \<open>Lemmas about strings and the fence expression\<close>

text \<open>\<open>includes_str\<close> is the contiguous-sublist relation of the library.\<close>

lemma includes_str_sublist: "includes_str s t \<longleftrightarrow> sublist t s"
  by (induction s) (simp_all add: sublist_Cons_right)

lemma split_nl_not_Nil: "split_nl s \<noteq> []"
  by (induction s) (auto split: list.splits)

lemma join_nl_Cons: "ls \<noteq> [] \<Longrightarrow> join_nl (l # ls) = l @ newline # join_nl ls"
  by (cases ls) simp_all

lemma join_split_nl: "join_nl (split_nl s) = s"
proof (induction s)
  case Nil
  show ?case by simp
next
  case (Cons c cs)
  show ?case
  proof (cases "c = newline")
    case True
    with Cons show ?thesis by (simp add: join_nl_Cons split_nl_not_Nil)
  next
    case False
    obtain l ls where sp: "split_nl cs = l # ls"
      using split_nl_not_Nil [of cs] by (cases "split_nl cs") auto
    have "join_nl ((c # l) # ls) = c # join_nl (l # ls)"
      by (cases ls) simp_all
    with False Cons sp show ?thesis by simp
  qed
qed

lemma split_nl_line: "newline \<notin> set l \<Longrightarrow> split_nl l = [l]"
  by (induction l) auto

lemma split_nl_append: "newline \<notin> set l \<Longrightarrow> split_nl (l @ newline # s) = l # split_nl s"
  by (induction l) auto

lemma split_join_nl:
  "ls \<noteq> [] \<Longrightarrow> \<forall>l \<in> set ls. newline \<notin> set l \<Longrightarrow> split_nl (join_nl ls) = ls"
proof (induction ls rule: join_nl.induct)
  case 1
  then show ?case by simp
next
  case (2 l)
  then show ?case by (simp add: split_nl_line)
next
  case (3 l v va)
  then show ?case by (simp add: split_nl_append)
qed

lemma slice_1_m1: "slice 1 (- 1) xs = butlast (tl xs)"
proof (cases xs)
  case Nil
  then show ?thesis by (simp add: slice_def)
next
  case (Cons x ys)
  have "take (length ys - Suc 0) ys = butlast ys"
    by (simp add: butlast_conv_take)
  moreover have "nat (int (length ys)) - Suc 0 = length ys - Suc 0" by simp
  ultimately show ?thesis using Cons
    by (cases ys) (simp_all add: slice_def Let_def nat_diff_distrib')
qed

lemma space_not_word: "is_space c \<Longrightarrow> \<not> is_word c"
  by (auto simp: is_space_def is_word_def)

lemma backtick_not_space: "\<not> is_space (CHR 0x60)"
  by (simp add: is_space_def)

lemma newline_is_space: "is_space newline"
  by (simp add: is_space_def newline_def)

lemma is_word_lower_char: "is_word (lower_char c) = is_word c"
  by (auto simp: is_word_def lower_char_def Let_def)

lemma all_word_toLowerCase: "list_all is_word (toLowerCase s) = list_all is_word s"
  by (induction s) (simp_all add: toLowerCase_def is_word_lower_char)

lemma dropWhile_none: "\<forall>x \<in> set xs. \<not> P x \<Longrightarrow> dropWhile P xs = xs"
  by (cases xs) simp_all

lemma trim_words: "list_all is_word s \<Longrightarrow> trim s = s"
proof -
  assume "list_all is_word s"
  then have ns: "\<forall>c \<in> set s. \<not> is_space c"
    using space_not_word by (auto simp: list_all_iff)
  then have "dropWhile is_space s = s" by (rule dropWhile_none)
  moreover from ns have "dropWhile is_space (rev s) = rev s"
    by (intro dropWhile_none) simp
  ultimately show ?thesis by (simp add: trim_def)
qed

lemma recognized_words:
  "list_all is_word ''python''" "list_all is_word ''py''"
  "list_all is_word ''typescript''" "list_all is_word ''ts''"
  "list_all is_word ''javascript''" "list_all is_word ''js''"
  by (simp_all add: is_word_def)

text \<open>The language of the expression, with the text of its group.\<close>

lemma codeBlockRegex_matches:
  assumes ws: "list_all is_space ws" and tag: "list_all is_word tag"
    and ws2: "list_all is_space ws2"
  shows "codeBlockRegex (ws @ backticks @ tag @ ws2 @ newline # rest) = Some tag"
proof -
  have b: "backticks = CHR 0x60 # [CHR 0x60, CHR 0x60]" by (simp add: backticks_def)
  have r1: "dropWhile is_space (ws @ backticks @ tag @ ws2 @ newline # rest)
      = backticks @ tag @ ws2 @ newline # rest"
    using ws by (simp add: b dropWhile_append3 backtick_not_space list_all_iff)
  have nw: "\<not> is_word (hd (ws2 @ newline # rest))"
    using ws2 newline_is_space space_not_word by (cases ws2) auto
  have tw: "takeWhile is_word (tag @ ws2 @ newline # rest) = tag"
    using tag nw by (cases "ws2 @ newline # rest") (auto simp: takeWhile_append2 list_all_iff takeWhile_eq_Nil_iff)
  have dw: "dropWhile is_word (tag @ ws2 @ newline # rest) = ws2 @ newline # rest"
    using tag nw by (cases "ws2 @ newline # rest") (auto simp: dropWhile_append2 list_all_iff)
  have nl: "newline \<in> set (takeWhile is_space (ws2 @ newline # rest))"
    using ws2 newline_is_space by (simp add: takeWhile_append2 list_all_iff)
  show ?thesis
    unfolding codeBlockRegex_def Let_def r1
    using tw dw nl by (simp add: backticks_def)
qed

lemma codeBlockRegex_SomeD:
  assumes "codeBlockRegex code = Some tag"
  shows "\<exists>ws ws2 rest. code = ws @ backticks @ tag @ ws2 @ newline # rest \<and>
     list_all is_space ws \<and> list_all is_word tag \<and> list_all is_space ws2"
proof -
  define ws where "ws = takeWhile is_space code"
  define r1 where "r1 = dropWhile is_space code"
  define r2 where "r2 = drop 3 r1"
  define r3 where "r3 = dropWhile is_word r2"
  define sp where "sp = takeWhile is_space r3"
  from assms have t3: "take 3 r1 = backticks"
    and tg: "tag = takeWhile is_word r2" and nl: "newline \<in> set sp"
    by (auto simp: codeBlockRegex_def Let_def r1_def r2_def r3_def sp_def split: if_splits)
  from nl obtain ws2 ws3 where sp_eq: "sp = ws2 @ newline # ws3"
    by (auto simp: in_set_conv_decomp)
  have "code = ws @ r1" by (simp add: ws_def r1_def)
  also have "r1 = backticks @ r2" using t3 by (simp add: r2_def) (metis append_take_drop_id)
  also have "r2 = tag @ r3" by (simp add: tg r3_def)
  also have "r3 = sp @ dropWhile is_space r3" by (simp add: sp_def)
  finally have "code = ws @ backticks @ tag @ ws2 @ newline # (ws3 @ dropWhile is_space r3)"
    by (simp add: sp_eq)
  moreover have "list_all is_space ws"
    by (auto simp: ws_def list_all_iff dest: set_takeWhileD)
  moreover have "list_all is_word tag"
    by (auto simp: tg list_all_iff dest: set_takeWhileD)
  moreover have "list_all is_space sp"
    by (auto simp: sp_def list_all_iff dest: set_takeWhileD)
  then have "list_all is_space ws2" by (simp add: sp_eq)
  ultimately show ?thesis by blast
qed

lemma codeBlockRegex_iff:
  "codeBlockRegex code = Some tag \<longleftrightarrow>
     (\<exists>ws ws2 rest. code = ws @ backticks @ tag @ ws2 @ newline # rest \<and>
        list_all is_space ws \<and> list_all is_word tag \<and> list_all is_space ws2)"
  using codeBlockRegex_SomeD codeBlockRegex_matches by blast

section \<open>Lemmas about a run\<close>

lemma replace_ts_js_tsFilename: "replace_ts_js (tsFilename_of t) = jsFilename_of t"
proof -
  have "suffix ''.ts'' (tsFilename_of t)"
    by (simp add: tsFilename_of_def suffix_def)
  moreover have "take (length (tsFilename_of t) - 3) (tsFilename_of t) = ''code-'' @ string_of_nat t"
    by (simp add: tsFilename_of_def)
  ultimately show ?thesis
    by (simp add: replace_ts_js_def jsFilename_of_def)
qed

lemma tracker_after_Nil: "tracker_after outputs [] = outputs"
  by (simp add: tracker_after_def)

lemma tracker_after_Cons: "tracker_after outputs (u # us) = tracker_after (setMetadata u outputs) us"
  by (simp add: tracker_after_def)

text \<open>
  Replacing again and again under one id leaves the other records as they are, in
  their order, and the last record of that id at the end.
\<close>

lemma tracker_after_replaces:
  assumes "\<forall>r \<in> set rs. output_id r = i" and "rs \<noteq> []"
  shows "tracker_after outputs (map Replace rs) =
     filter (\<lambda>output. output_id output \<noteq> i) outputs @ [last rs]"
  using assms
proof (induction rs arbitrary: outputs)
  case Nil
  then show ?case by simp
next
  case (Cons r rs)
  show ?case
  proof (cases "rs = []")
    case True
    with Cons.prems show ?thesis
      by (simp add: tracker_after_Cons tracker_after_Nil)
  next
    case False
    with Cons show ?thesis
      by (simp add: tracker_after_Cons)
  qed
qed

lemma tracker_after_run:
  assumes "\<forall>r \<in> set (r0 # rs). output_id r = i" and "rs \<noteq> []"
  shows "tracker_after outputs (Append r0 # map Replace rs) =
     filter (\<lambda>output. output_id output \<noteq> i) outputs @ [last rs]"
  using assms by (simp add: tracker_after_Cons tracker_after_replaces [where i = i])

text \<open>
  Every run is one append followed by replacements, at least one, all under the id of
  the run.
\<close>

lemma onClick_shape:
  "\<exists>r0 rs. onClick env py runId content = Append r0 # map Replace rs \<and> rs \<noteq> [] \<and>
     (\<forall>r \<in> set (r0 # rs). output_id r = runId)"
proof (cases "language (parseCodeBlockMarkers content) = Python")
  case False
  then have l: "language (parseCodeBlockMarkers content) = Javascript \<or>
      language (parseCodeBlockMarkers content) = Typescript"
    by (cases "language (parseCodeBlockMarkers content)") simp_all
  obtain r1 r2 r3 r0 where "onClick env py runId content =
      [Append r0, Replace r1, Replace r2, Replace r3]"
    and "output_id r0 = runId" "output_id r1 = runId" "output_id r2 = runId" "output_id r3 = runId"
    using l by (simp add: onClick_def Let_def)
  then have "onClick env py runId content = Append r0 # map Replace [r1, r2, r3] \<and>
      [r1, r2, r3] \<noteq> [] \<and> (\<forall>r \<in> set (r0 # [r1, r2, r3]). output_id r = runId)"
    by simp
  then show ?thesis by blast
next
  case True
  define mk where "mk = (\<lambda>message. \<lparr>output_id = runId,
      contents = [\<lparr>content_type = Text, content_value = message\<rparr>],
      status = ''loading_packages''\<rparr>)"
  define fin where "fin = (case raised py of
      None \<Rightarrow> \<lparr>output_id = runId, contents = map stdout_content (batched py),
                status = ''completed''\<rparr>
    | Some message \<Rightarrow> \<lparr>output_id = runId,
                contents = [\<lparr>content_type = Text, content_value = message\<rparr>],
                status = ''failed''\<rparr>)"
  define r0 where "r0 = \<lparr>output_id = runId, contents = [], status = ''in_progress''\<rparr>"
  have "onClick env py runId content = Append r0 # map Replace (map mk (messages py) @ [fin])"
    using True by (simp add: onClick_def Let_def mk_def fin_def r0_def comp_def split: option.split)
  moreover have "\<forall>r \<in> set (r0 # map mk (messages py) @ [fin]). output_id r = runId"
    by (auto simp: mk_def fin_def r0_def split: option.split)
  ultimately show ?thesis by blast
qed

lemma tracker_after_onClick:
  "tracker_after outputs (onClick env py runId content) =
     filter (\<lambda>output. output_id output \<noteq> runId) outputs @ [final_record env py runId content]"
proof -
  obtain r0 rs where sh: "onClick env py runId content = Append r0 # map Replace rs"
    and ne: "rs \<noteq> []" and ids: "\<forall>r \<in> set (r0 # rs). output_id r = runId"
    using onClick_shape by blast
  have "final_record env py runId content = last rs"
    using ne by (simp add: final_record_def sh last_map)
  then show ?thesis
    using tracker_after_run [OF ids ne] sh by simp
qed

text \<open>The last record of each branch.\<close>

lemma final_record_script:
  assumes "language (parseCodeBlockMarkers content) \<noteq> Python"
  shows "final_record env py runId content =
     (let info = parseCodeBlockMarkers content;
          res = executeJsOrTs env (cleanedCode info) (language info)
      in \<lparr>output_id = runId,
          contents = [\<lparr>content_type = Text,
                       content_value =
                         (if truthy (error res) then ''Error: '' @ the (error res)
                          else if output_str res = '''' then
                            ''Code executed successfully with no output''
                          else output_str res)\<rparr>],
          status = (if truthy (error res) then ''failed'' else ''completed'')\<rparr>)"
proof -
  from assms have "language (parseCodeBlockMarkers content) = Javascript \<or>
      language (parseCodeBlockMarkers content) = Typescript"
    by (cases "language (parseCodeBlockMarkers content)") simp_all
  then show ?thesis
    by (simp add: final_record_def onClick_def Let_def)
qed

lemma final_record_python:
  assumes "language (parseCodeBlockMarkers content) = Python"
  shows "final_record env py runId content =
     (case raised py of
        None \<Rightarrow> \<lparr>output_id = runId, contents = map stdout_content (batched py),
                  status = ''completed''\<rparr>
      | Some message \<Rightarrow> \<lparr>output_id = runId,
                  contents = [\<lparr>content_type = Text, content_value = message\<rparr>],
                  status = ''failed''\<rparr>)"
  using assms by (simp add: final_record_def onClick_def Let_def split: option.split)

text \<open>
  The statuses of a run whose awaited steps settle: \<open>in_progress\<close>, then
  \<open>loading_packages\<close>, then one terminal status.
\<close>

lemma onClick_status_sequence:
  "\<exists>r0 rs t.
     onClick env py runId content = Append r0 # map Replace rs \<and>
     (\<forall>r \<in> set (r0 # rs). output_id r = runId) \<and>
     map status (r0 # rs) =
       ''in_progress'' #
       replicate (if language (parseCodeBlockMarkers content) = Python then length (messages py)
                  else 2) ''loading_packages'' @ [t] \<and>
     (t = ''completed'' \<or> t = ''failed'')"
proof (cases "language (parseCodeBlockMarkers content) = Python")
  case False
  then have l: "language (parseCodeBlockMarkers content) = Javascript \<or>
      language (parseCodeBlockMarkers content) = Typescript"
    by (cases "language (parseCodeBlockMarkers content)") simp_all
  obtain r0 r1 r2 r3 where sh: "onClick env py runId content =
      [Append r0, Replace r1, Replace r2, Replace r3]"
    and ids: "output_id r0 = runId" "output_id r1 = runId" "output_id r2 = runId"
      "output_id r3 = runId"
    and st: "status r0 = ''in_progress''" "status r1 = ''loading_packages''"
      "status r2 = ''loading_packages''" "status r3 = ''completed'' \<or> status r3 = ''failed''"
    using l by (simp add: onClick_def Let_def)
  have "onClick env py runId content = Append r0 # map Replace [r1, r2, r3]"
    using sh by simp
  moreover have "\<forall>r \<in> set (r0 # [r1, r2, r3]). output_id r = runId"
    using ids by simp
  moreover have "map status (r0 # [r1, r2, r3]) =
      ''in_progress'' # replicate 2 ''loading_packages'' @ [status r3]"
    using st by (simp add: numeral_2_eq_2)
  ultimately have "onClick env py runId content = Append r0 # map Replace [r1, r2, r3] \<and>
      (\<forall>r \<in> set (r0 # [r1, r2, r3]). output_id r = runId) \<and>
      map status (r0 # [r1, r2, r3]) =
        ''in_progress'' #
        replicate (if language (parseCodeBlockMarkers content) = Python
                   then length (messages py) else 2) ''loading_packages'' @ [status r3] \<and>
      (status r3 = ''completed'' \<or> status r3 = ''failed'')"
    using False st(4) by simp
  then show ?thesis
    by - (rule exI [of _ r0], rule exI [of _ "[r1, r2, r3]"], rule exI [of _ "status r3"],
        assumption)
next
  case True
  define mk where "mk = (\<lambda>message. \<lparr>output_id = runId,
      contents = [\<lparr>content_type = Text, content_value = message\<rparr>],
      status = ''loading_packages''\<rparr>)"
  define fin where "fin = (case raised py of
      None \<Rightarrow> \<lparr>output_id = runId, contents = map stdout_content (batched py),
                status = ''completed''\<rparr>
    | Some message \<Rightarrow> \<lparr>output_id = runId,
                contents = [\<lparr>content_type = Text, content_value = message\<rparr>],
                status = ''failed''\<rparr>)"
  define r0 where "r0 = \<lparr>output_id = runId, contents = [], status = ''in_progress''\<rparr>"
  have "onClick env py runId content = Append r0 # map Replace (map mk (messages py) @ [fin])"
    using True by (simp add: onClick_def Let_def mk_def fin_def r0_def comp_def split: option.split)
  moreover have "\<forall>r \<in> set (r0 # map mk (messages py) @ [fin]). output_id r = runId"
    by (auto simp: mk_def fin_def r0_def split: option.split)
  moreover have "map status (map mk (messages py)) =
      replicate (length (messages py)) ''loading_packages''"
    by (simp add: mk_def comp_def map_replicate_const)
  then have "map status (r0 # map mk (messages py) @ [fin]) =
      ''in_progress'' # replicate (length (messages py)) ''loading_packages'' @ [status fin]"
    by (simp add: r0_def)
  moreover have "status fin = ''completed'' \<or> status fin = ''failed''"
    by (simp add: fin_def split: option.split)
  ultimately have "onClick env py runId content =
        Append r0 # map Replace (map mk (messages py) @ [fin]) \<and>
      (\<forall>r \<in> set (r0 # map mk (messages py) @ [fin]). output_id r = runId) \<and>
      map status (r0 # map mk (messages py) @ [fin]) =
        ''in_progress'' #
        replicate (if language (parseCodeBlockMarkers content) = Python
                   then length (messages py) else 2) ''loading_packages'' @ [status fin] \<and>
      (status fin = ''completed'' \<or> status fin = ''failed'')"
    using True by simp
  then show ?thesis
    by - (rule exI [of _ r0], rule exI [of _ "map mk (messages py) @ [fin]"],
        rule exI [of _ "status fin"], assumption)
qed

section \<open>Lemmas about the singleton and the file names\<close>

lemma run_events_no_window:
  "run_events False es s = (ps, s') \<Longrightarrow>
     boots s' = boots s \<and> webcontainerInstance s' = webcontainerInstance s \<and>
     distinct ps \<and> (\<forall>p \<in> set ps. promises s \<le> p)"
proof (induction es arbitrary: s ps s')
  case Nil
  then show ?case by simp
next
  case (Cons e es)
  show ?case
  proof (cases e)
    case Call
    obtain qs t where r: "run_events False es (s\<lparr>promises := promises s + 1\<rparr>) = (qs, t)"
      by (cases "run_events False es (s\<lparr>promises := promises s + 1\<rparr>)")
    with Cons.prems Call have ps: "ps = promises s # qs" and t: "s' = t"
      by (simp_all add: getWebContainer_def)
    from Cons.IH [OF r] have "boots t = boots s" "webcontainerInstance t = webcontainerInstance s"
      "distinct qs" "\<forall>p \<in> set qs. promises s + 1 \<le> p"
      by simp_all
    then show ?thesis
      using ps t by fastforce
  next
    case Boot_resolves
    with Cons.prems have "run_events False es
        (if webcontainerInstance s = None then s else s\<lparr>loaded := True\<rparr>) = (ps, s')"
      by simp
    from Cons.IH [OF this] show ?thesis
      by (simp split: if_splits)
  qed
qed

lemma run_events_booted:
  "webcontainerInstance s = Some p \<Longrightarrow> run_events True es s = (ps, s') \<Longrightarrow>
     boots s' = boots s \<and> webcontainerInstance s' = Some p \<and> (\<forall>q \<in> set ps. q = p)"
proof (induction es arbitrary: s ps s')
  case Nil
  then show ?case by simp
next
  case (Cons e es)
  show ?case
  proof (cases e)
    case Call
    obtain qs t where r: "run_events True es s = (qs, t)"
      by (cases "run_events True es s")
    with Cons.prems Call have "ps = p # qs" and "s' = t"
      by (simp_all add: getWebContainer_def)
    with Cons.IH [OF Cons.prems(1) r] show ?thesis by simp
  next
    case Boot_resolves
    with Cons.prems have r: "run_events True es (s\<lparr>loaded := True\<rparr>) = (ps, s')"
      by simp
    have "webcontainerInstance (s\<lparr>loaded := True\<rparr>) = Some p"
      using Cons.prems(1) by simp
    from Cons.IH [OF this r] show ?thesis by simp
  qed
qed

lemma run_events_fresh:
  "webcontainerInstance s = None \<Longrightarrow> run_events True es s = (ps, s') \<Longrightarrow>
     (ps = [] \<and> boots s' = boots s \<and> webcontainerInstance s' = None) \<or>
     (ps \<noteq> [] \<and> boots s' = boots s + 1 \<and> webcontainerInstance s' = Some (promises s) \<and>
      (\<forall>q \<in> set ps. q = promises s))"
proof (induction es arbitrary: s ps s')
  case Nil
  then show ?case by simp
next
  case (Cons e es)
  show ?case
  proof (cases e)
    case Call
    define s1 where "s1 = s\<lparr>webcontainerInstance := Some (promises s),
        promises := promises s + 1, boots := boots s + 1\<rparr>"
    obtain qs t where r: "run_events True es s1 = (qs, t)"
      by (cases "run_events True es s1")
    with Cons.prems Call have ps: "ps = promises s # qs" and t: "s' = t"
      by (simp_all add: getWebContainer_def s1_def)
    have "webcontainerInstance s1 = Some (promises s)" by (simp add: s1_def)
    from run_events_booted [OF this r] show ?thesis
      using ps t by (simp add: s1_def)
  next
    case Boot_resolves
    with Cons.prems have "run_events True es s = (ps, s')"
      by simp
    from Cons.IH [OF Cons.prems(1) this] show ?thesis .
  qed
qed

text \<open>The decimal digits determine the number, so two file names are equal only for equal times.\<close>

lemma digit_char_inj: "d < 10 \<Longrightarrow> e < 10 \<Longrightarrow> digit_char d = digit_char e \<Longrightarrow> d = e"
proof -
  assume d: "d < 10" and e: "e < 10" and eq: "digit_char d = digit_char e"
  have "distinct ''0123456789''" by simp
  moreover have "d < length ''0123456789''" "e < length ''0123456789''"
    using d e by simp_all
  ultimately show "d = e"
    using eq unfolding digit_char_def by (simp only: nth_eq_iff_index_eq)
qed

lemma string_of_nat_not_Nil: "string_of_nat n \<noteq> []"
  by (subst string_of_nat.simps) simp

lemma string_of_nat_inj: "string_of_nat m = string_of_nat n \<Longrightarrow> m = n"
proof (induction m arbitrary: n rule: string_of_nat.induct)
  case (1 m)
  show ?case
  proof (cases "m < 10")
    case True
    then have sm: "string_of_nat m = [digit_char m]"
      by (subst string_of_nat.simps) simp
    show ?thesis
    proof (cases "n < 10")
      case n: True
      then have "string_of_nat n = [digit_char n]"
        by (subst string_of_nat.simps) simp
      with sm "1.prems" True n show ?thesis
        by (simp add: digit_char_inj)
    next
      case False
      then have "string_of_nat n = string_of_nat (n div 10) @ [digit_char (n mod 10)]"
        by (subst string_of_nat.simps) simp
      with sm "1.prems" have "[digit_char m] = string_of_nat (n div 10) @ [digit_char (n mod 10)]"
        by simp
      then have "string_of_nat (n div 10) = []" by simp
      then show ?thesis by (simp add: string_of_nat_not_Nil)
    qed
  next
    case False
    then have sm: "string_of_nat m = string_of_nat (m div 10) @ [digit_char (m mod 10)]"
      by (subst string_of_nat.simps) simp
    show ?thesis
    proof (cases "n < 10")
      case True
      then have "string_of_nat n = [digit_char n]"
        by (subst string_of_nat.simps) simp
      with sm "1.prems" have "string_of_nat (m div 10) @ [digit_char (m mod 10)] = [digit_char n]"
        by simp
      then have "string_of_nat (m div 10) = []" by simp
      then show ?thesis by (simp add: string_of_nat_not_Nil)
    next
      case n: False
      then have "string_of_nat n = string_of_nat (n div 10) @ [digit_char (n mod 10)]"
        by (subst string_of_nat.simps) simp
      with sm "1.prems" have a: "string_of_nat (m div 10) = string_of_nat (n div 10)"
        and b: "digit_char (m mod 10) = digit_char (n mod 10)"
        by simp_all
      from "1.IH" [OF False a] have "m div 10 = n div 10" .
      moreover from b have "m mod 10 = n mod 10"
        by (intro digit_char_inj) simp_all
      ultimately show ?thesis
        by (metis div_mult_mod_eq)
    qed
  qed
qed

lemma jsFilename_of_eq_iff: "jsFilename_of t = jsFilename_of u \<longleftrightarrow> t = u"
  by (auto simp: jsFilename_of_def dest: string_of_nat_inj)

section \<open>Claims about the classifier\<close>

text \<open>
  C5. An input whose first line is a fence line with a recognized tag (white space,
  three backticks, the tag in any case, white space, then the line feed that ends the
  line) is classified with \<open>cleanedCode\<close> the lines strictly between the first and the
  last line, and with the language the tag stands for.
\<close>

theorem fenced_recognized_tag:
  assumes "split_nl code = first # rest" and "rest \<noteq> []"
    and "first = ws @ backticks @ tag @ ws2"
    and "list_all is_space ws" and "list_all is_space ws2"
    and "toLowerCase tag \<in> {''python'', ''py'', ''javascript'', ''js'', ''typescript'', ''ts''}"
  shows "parseCodeBlockMarkers code =
     \<lparr>cleanedCode = join_nl (butlast rest),
      language = (if toLowerCase tag \<in> {''python'', ''py''} then Python
                  else if toLowerCase tag \<in> {''typescript'', ''ts''} then Typescript
                  else Javascript)\<rparr>"
proof -
  have "list_all is_word (toLowerCase tag)"
    using assms(6) recognized_words by auto
  then have tag: "list_all is_word tag" by (simp add: all_word_toLowerCase)
  have "code = join_nl (first # rest)"
    using assms(1) join_split_nl [of code] by simp
  then have "code = ws @ backticks @ tag @ ws2 @ newline # join_nl rest"
    using assms(2,3) by (simp add: join_nl_Cons)
  then have m: "codeBlockRegex code = Some tag"
    using codeBlockRegex_matches [OF assms(4) tag assms(5)] by simp
  have t: "trim (toLowerCase tag) = toLowerCase tag"
    using tag by (simp add: trim_words all_word_toLowerCase)
  have c: "slice 1 (- 1) (split_nl code) = butlast rest"
    using assms(1) by (simp add: slice_1_m1)
  show ?thesis
    using assms(6) by (auto simp: parseCodeBlockMarkers_def m t c)
qed

theorem fenced_recognized_tag_witness:
  "parseCodeBlockMarkers ''  ```Py \<newline>x = 1\<newline>y = 2\<newline>```'' =
     \<lparr>cleanedCode = ''x = 1\<newline>y = 2'', language = Python\<rparr>"
proof -
  have h1: "split_nl ''  ```Py \<newline>x = 1\<newline>y = 2\<newline>```'' =
      ''  ```Py '' # [''x = 1'', ''y = 2'', ''```'']"
    by code_simp
  have h2: "[''x = 1'', ''y = 2'', ''```''] \<noteq> []" by simp
  have h3: "''  ```Py '' = ''  '' @ backticks @ ''Py'' @ '' ''"
    by (simp add: backticks_def)
  have h4: "list_all is_space ''  ''" and h5: "list_all is_space '' ''"
    by code_simp+
  have lc: "toLowerCase ''Py'' = ''py''" by code_simp
  have h6: "toLowerCase ''Py'' \<in> {''python'', ''py'', ''javascript'', ''js'', ''typescript'', ''ts''}"
    by (simp add: lc)
  have j: "join_nl (butlast [''x = 1'', ''y = 2'', ''```'']) = ''x = 1\<newline>y = 2''"
    by code_simp
  show ?thesis
    using fenced_recognized_tag [OF h1 h2 h3 h4 h5 h6] by (simp only: j lc) simp
qed

text \<open>
  C6. Without a fence, and with a fence whose tag is not recognized (then on the
  stripped body), the language comes from the content rules in order: the Python
  markers first, then the TypeScript markers, else JavaScript.
\<close>

theorem content_rules_first_match:
  assumes "(codeBlockRegex code = None \<and> body = code) \<or>
     (\<exists>tag. codeBlockRegex code = Some tag \<and>
        toLowerCase tag \<notin> {''python'', ''py'', ''javascript'', ''js'', ''typescript'', ''ts''} \<and>
        body = join_nl (butlast (tl (split_nl code))))"
  shows "parseCodeBlockMarkers code =
     \<lparr>cleanedCode = body,
      language = (if python_markers body then Python
                  else if typescript_markers body then Typescript
                  else Javascript)\<rparr>"
proof -
  have d: "detectLanguageFromContent b =
      (if python_markers b then Python
       else if typescript_markers b then Typescript else Javascript)" for b
    by (simp add: detectLanguageFromContent_def python_markers_def typescript_markers_def)
  from assms show ?thesis
  proof
    assume "codeBlockRegex code = None \<and> body = code"
    then show ?thesis by (simp add: parseCodeBlockMarkers_def d)
  next
    assume "\<exists>tag. codeBlockRegex code = Some tag \<and>
        toLowerCase tag \<notin> {''python'', ''py'', ''javascript'', ''js'', ''typescript'', ''ts''} \<and>
        body = join_nl (butlast (tl (split_nl code)))"
    then obtain tag where m: "codeBlockRegex code = Some tag"
      and u: "toLowerCase tag \<notin> {''python'', ''py'', ''javascript'', ''js'', ''typescript'', ''ts''}"
      and b: "body = join_nl (butlast (tl (split_nl code)))"
      by blast
    from m have "list_all is_word tag"
      using codeBlockRegex_SomeD by blast
    then have t: "trim (toLowerCase tag) = toLowerCase tag"
      by (simp add: trim_words all_word_toLowerCase)
    show ?thesis
      using u by (simp add: parseCodeBlockMarkers_def m t slice_1_m1 b [symmetric] d)
  qed
qed

theorem content_rules_first_match_witness:
  "language (parseCodeBlockMarkers ''def foo():\<newline>    print(1)'') = Python \<and>
   language (parseCodeBlockMarkers ''interface Foo { x: number }'') = Typescript \<and>
   language (parseCodeBlockMarkers ''console.log(1)'') = Javascript \<and>
   parseCodeBlockMarkers ''```rust\<newline>import x: number\<newline>```'' =
     \<lparr>cleanedCode = ''import x: number'', language = Python\<rparr>"
proof -
  have n1: "codeBlockRegex ''def foo():\<newline>    print(1)'' = None"
    and n2: "codeBlockRegex ''interface Foo { x: number }'' = None"
    and n3: "codeBlockRegex ''console.log(1)'' = None"
    and r: "codeBlockRegex ''```rust\<newline>import x: number\<newline>```'' = Some ''rust''"
    by code_simp+
  have m1: "python_markers ''def foo():\<newline>    print(1)''"
    and m2: "\<not> python_markers ''interface Foo { x: number }''"
    and m3: "typescript_markers ''interface Foo { x: number }''"
    and m4: "\<not> python_markers ''console.log(1)''"
    and m5: "\<not> typescript_markers ''console.log(1)''"
    and m6: "python_markers ''import x: number''"
    by code_simp+
  have u: "toLowerCase ''rust'' \<notin> {''python'', ''py'', ''javascript'', ''js'', ''typescript'', ''ts''}"
    by code_simp
  have b: "''import x: number'' =
      join_nl (butlast (tl (split_nl ''```rust\<newline>import x: number\<newline>```'')))"
    by code_simp
  have "parseCodeBlockMarkers ''def foo():\<newline>    print(1)'' =
      \<lparr>cleanedCode = ''def foo():\<newline>    print(1)'', language = Python\<rparr>"
    using content_rules_first_match [of "''def foo():\<newline>    print(1)''"
        "''def foo():\<newline>    print(1)''"] n1 m1 by simp
  moreover have "parseCodeBlockMarkers ''interface Foo { x: number }'' =
      \<lparr>cleanedCode = ''interface Foo { x: number }'', language = Typescript\<rparr>"
    using content_rules_first_match [of "''interface Foo { x: number }''"
        "''interface Foo { x: number }''"] n2 m2 m3 by simp
  moreover have "parseCodeBlockMarkers ''console.log(1)'' =
      \<lparr>cleanedCode = ''console.log(1)'', language = Javascript\<rparr>"
    using content_rules_first_match [of "''console.log(1)''" "''console.log(1)''"] n3 m4 m5
    by simp
  moreover have "parseCodeBlockMarkers ''```rust\<newline>import x: number\<newline>```'' =
      \<lparr>cleanedCode = ''import x: number'', language = Python\<rparr>"
  proof -
    have "(codeBlockRegex ''```rust\<newline>import x: number\<newline>```'' = None \<and>
        ''import x: number'' = ''```rust\<newline>import x: number\<newline>```'') \<or>
      (\<exists>tag. codeBlockRegex ''```rust\<newline>import x: number\<newline>```'' = Some tag \<and>
        toLowerCase tag \<notin> {''python'', ''py'', ''javascript'', ''js'', ''typescript'', ''ts''} \<and>
        ''import x: number'' =
          join_nl (butlast (tl (split_nl ''```rust\<newline>import x: number\<newline>```''))))"
      by (rule disjI2, rule exI [of _ "''rust''"]) (intro conjI r u b)
    from content_rules_first_match [OF this] m6 show ?thesis by simp
  qed
  ultimately show ?thesis by simp
qed

text \<open>
  C10. When the first line is an opening fence line, whatever its tag, the first and
  the last line of the input are both removed: the last line \<open>l\<close> is dropped whether
  or not it is a closing fence, so a last line of code is lost when the closing fence
  is missing.
\<close>

theorem last_line_dropped:
  assumes "f = ws @ backticks @ tag @ ws2"
    and "list_all is_space ws" and "list_all is_word tag" and "list_all is_space ws2"
    and "newline \<notin> set f" and "\<forall>m \<in> set mid. newline \<notin> set m" and "newline \<notin> set l"
  shows "split_nl (join_nl (f # mid @ [l])) = f # mid @ [l] \<and>
     cleanedCode (parseCodeBlockMarkers (join_nl (f # mid @ [l]))) = join_nl mid"
proof -
  let ?code = "join_nl (f # mid @ [l])"
  have sp: "split_nl ?code = f # mid @ [l]"
    using assms(5-7) by (intro split_join_nl) auto
  have "?code = ws @ backticks @ tag @ ws2 @ newline # join_nl (mid @ [l])"
    using assms(1) by (simp add: join_nl_Cons)
  then have m: "codeBlockRegex ?code = Some tag"
    using codeBlockRegex_matches [OF assms(2-4)] by simp
  have "slice 1 (- 1) (split_nl ?code) = mid"
    by (simp only: sp slice_1_m1) simp
  then show ?thesis
    using sp by (simp add: parseCodeBlockMarkers_def m Let_def)
qed

theorem last_line_dropped_witness:
  "split_nl ''```js\<newline>console.log(1)\<newline>console.log(2)'' =
     [''```js'', ''console.log(1)'', ''console.log(2)''] \<and>
   cleanedCode (parseCodeBlockMarkers ''```js\<newline>console.log(1)\<newline>console.log(2)'') =
     ''console.log(1)''"
proof -
  have h1: "''```js'' = [] @ backticks @ ''js'' @ []" by (simp add: backticks_def)
  have h2: "list_all is_space []" by simp
  have h3: "list_all is_word ''js''" by code_simp
  have h5: "newline \<notin> set ''```js''"
    and h6: "\<forall>m \<in> set [''console.log(1)'']. newline \<notin> set m"
    and h7: "newline \<notin> set ''console.log(2)''"
    by (simp_all add: newline_def)
  have j: "join_nl (''```js'' # [''console.log(1)''] @ [''console.log(2)'']) =
      ''```js\<newline>console.log(1)\<newline>console.log(2)''"
    and j': "join_nl [''console.log(1)''] = ''console.log(1)''"
    by code_simp+
  show ?thesis
    using last_line_dropped [OF h1 h2 h3 h2 h5 h6 h7] by (simp only: j j') simp
qed

section \<open>Claims about the run action\<close>

text \<open>
  C1 (amended). A JavaScript or TypeScript run whose \<^verbatim>\<open>node\<close> process exits: with
  exit code 0 the run record is \<open>completed\<close> with one text holding the collected
  output, or \<^verbatim>\<open>Code executed successfully (no output)\<close> when there is none; with
  another exit code it is \<open>failed\<close> and holds the single text
  \<^verbatim>\<open>Error: Execution failed\<close>. The captured output of a failed run is kept in the
  result of the executor, beside the marker \<^verbatim>\<open>Execution failed\<close>, and not in the
  run record.
\<close>

theorem script_exit_code_record:
  assumes "info = parseCodeBlockMarkers content"
    and "import_error env = None" and "boot_error env = None"
    and "(language info = Javascript \<and>
          node env (jsFilename_of (now env)) (cleanedCode info) = Exits outputChunks exitCode) \<or>
         (language info = Typescript \<and>
          (\<exists>errorChunks tscExit js.
             tsc env (tsFilename_of (now env)) (cleanedCode info) =
               Tsc_exits errorChunks tscExit (Some js) \<and>
             node env (jsFilename_of (now env)) js = Exits outputChunks exitCode))"
  shows "tracker_after outputs (onClick env py runId content) =
       filter (\<lambda>output. output_id output \<noteq> runId) outputs @
       [\<lparr>output_id = runId,
         contents = [\<lparr>content_type = Text,
                      content_value =
                        (if exitCode = 0 then
                           (if concat outputChunks = '''' then
                              ''Code executed successfully (no output)''
                            else concat outputChunks)
                         else ''Error: Execution failed'')\<rparr>],
         status = (if exitCode = 0 then ''completed'' else ''failed'')\<rparr>] \<and>
     (exitCode \<noteq> 0 \<longrightarrow>
        executeJsOrTs env (cleanedCode info) (language info) =
          \<lparr>output_str = concat outputChunks, error = Some ''Execution failed''\<rparr>)"
proof -
  define stdout where "stdout = concat outputChunks"
  define res where "res = executeJsOrTs env (cleanedCode info) (language info)"
  have lang: "language (parseCodeBlockMarkers content) \<noteq> Python"
    using assms(1,4) by auto
  have res_eq: "res =
      (if exitCode \<noteq> 0 then \<lparr>output_str = stdout, error = Some ''Execution failed''\<rparr>
       else \<lparr>output_str = (if stdout = '''' then ''Code executed successfully (no output)''
                            else stdout),
             error = None\<rparr>)"
    using assms(4)
  proof
    assume "language info = Javascript \<and>
        node env (jsFilename_of (now env)) (cleanedCode info) = Exits outputChunks exitCode"
    then show ?thesis
      using assms(2,3)
      by (simp add: res_def executeJsOrTs_def executeJsCode_def run_node_def stdout_def)
  next
    assume "language info = Typescript \<and>
        (\<exists>errorChunks tscExit js.
           tsc env (tsFilename_of (now env)) (cleanedCode info) =
             Tsc_exits errorChunks tscExit (Some js) \<and>
           node env (jsFilename_of (now env)) js = Exits outputChunks exitCode)"
    then obtain errorChunks tscExit js where ts: "language info = Typescript"
      and c: "tsc env (tsFilename_of (now env)) (cleanedCode info) =
          Tsc_exits errorChunks tscExit (Some js)"
      and n: "node env (jsFilename_of (now env)) js = Exits outputChunks exitCode"
      by blast
    have "compileTsWithTsc env (cleanedCode info) (tsFilename_of (now env)) =
        Some (jsFilename_of (now env), js)"
      by (simp add: compileTsWithTsc_def c replace_ts_js_tsFilename)
    then show ?thesis
      using assms(2,3) ts n
      by (simp add: res_def executeJsOrTs_def executeTypeScript_def run_node_def stdout_def)
  qed
  have fin: "final_record env py runId content =
      \<lparr>output_id = runId,
       contents = [\<lparr>content_type = Text,
                    content_value =
                      (if exitCode = 0 then
                         (if stdout = '''' then ''Code executed successfully (no output)''
                          else stdout)
                       else ''Error: Execution failed'')\<rparr>],
       status = (if exitCode = 0 then ''completed'' else ''failed'')\<rparr>"
    using res_eq
    by (simp add: final_record_script [OF lang] assms(1) [symmetric] res_def [symmetric]
        truthy_def)
  show ?thesis
    using fin res_eq by (simp add: tracker_after_onClick stdout_def res_def)
qed

theorem script_exit_code_record_witness:
  "tracker_after []
     (onClick \<lparr>import_error = None, boot_error = None, now = 1700000000000,
               tsc = tsc_exits [] 0 None, node = node_exits [''1\<newline>''] 0\<rparr>
        \<lparr>messages = [], batched = [], raised = None\<rparr> ''run-1'' ''console.log(1)'') =
     [\<lparr>output_id = ''run-1'',
       contents = [\<lparr>content_type = Text, content_value = ''1\<newline>''\<rparr>],
       status = ''completed''\<rparr>] \<and>
   tracker_after []
     (onClick \<lparr>import_error = None, boot_error = None, now = 1700000000000,
               tsc = tsc_exits [] 0 (Some ''throw 1;''), node = node_exits [] 1\<rparr>
        \<lparr>messages = [], batched = [], raised = None\<rparr> ''run-2'' ''const x: number = 1; throw x'') =
     [\<lparr>output_id = ''run-2'',
       contents = [\<lparr>content_type = Text, content_value = ''Error: Execution failed''\<rparr>],
       status = ''failed''\<rparr>]"
proof -
  define env where "env = \<lparr>import_error = None, boot_error = None, now = 1700000000000,
      tsc = tsc_exits [] 0 None, node = node_exits [''1\<newline>''] 0\<rparr>"
  define env' where "env' = \<lparr>import_error = None, boot_error = None, now = 1700000000000,
      tsc = tsc_exits [] 0 (Some ''throw 1;''), node = node_exits [] 1\<rparr>"
  have l: "parseCodeBlockMarkers ''console.log(1)'' =
      \<lparr>cleanedCode = ''console.log(1)'', language = Javascript\<rparr>"
    and l': "parseCodeBlockMarkers ''const x: number = 1; throw x'' =
      \<lparr>cleanedCode = ''const x: number = 1; throw x'', language = Typescript\<rparr>"
    by code_simp+
  have h: "(language (parseCodeBlockMarkers ''console.log(1)'') = Javascript \<and>
      node env (jsFilename_of (now env)) (cleanedCode (parseCodeBlockMarkers ''console.log(1)'')) =
        Exits [''1\<newline>''] 0) \<or>
     (language (parseCodeBlockMarkers ''console.log(1)'') = Typescript \<and>
      (\<exists>errorChunks tscExit js.
         tsc env (tsFilename_of (now env)) (cleanedCode (parseCodeBlockMarkers ''console.log(1)'')) =
           Tsc_exits errorChunks tscExit (Some js) \<and>
         node env (jsFilename_of (now env)) js = Exits [''1\<newline>''] 0))"
    by (rule disjI1) (simp add: l env_def node_exits_def)
  have t: "tsc env' (tsFilename_of (now env'))
        (cleanedCode (parseCodeBlockMarkers ''const x: number = 1; throw x'')) =
        Tsc_exits [] 0 (Some ''throw 1;'') \<and>
      node env' (jsFilename_of (now env')) ''throw 1;'' = Exits [] 1"
    by (simp add: env'_def tsc_exits_def node_exits_def)
  have h': "(language (parseCodeBlockMarkers ''const x: number = 1; throw x'') = Javascript \<and>
      node env' (jsFilename_of (now env'))
        (cleanedCode (parseCodeBlockMarkers ''const x: number = 1; throw x'')) = Exits [] 1) \<or>
     (language (parseCodeBlockMarkers ''const x: number = 1; throw x'') = Typescript \<and>
      (\<exists>errorChunks tscExit js.
         tsc env' (tsFilename_of (now env'))
           (cleanedCode (parseCodeBlockMarkers ''const x: number = 1; throw x'')) =
           Tsc_exits errorChunks tscExit (Some js) \<and>
         node env' (jsFilename_of (now env')) js = Exits [] 1))"
    by (rule disjI2, rule conjI, simp add: l', intro exI, rule t)
  have i: "import_error env = None" and b: "boot_error env = None"
    and i': "import_error env' = None" and b': "boot_error env' = None"
    by (simp_all add: env_def env'_def)
  from script_exit_code_record [OF refl i b h, of "[]"
      "\<lparr>messages = [], batched = [], raised = None\<rparr>" "''run-1''"]
    script_exit_code_record [OF refl i' b' h', of "[]"
      "\<lparr>messages = [], batched = [], raised = None\<rparr>" "''run-2''"]
  show ?thesis by (simp add: env_def env'_def)
qed

text \<open>
  C1, as stated, fails on a run that prints \<^verbatim>\<open>1\<close> and then exits with code 1: the
  executor's result holds the printed text, the run record holds the failure text
  only, and the printed text is nowhere in it.
\<close>

theorem script_failure_drops_stdout:
  "tracker_after []
     (onClick \<lparr>import_error = None, boot_error = None, now = 1700000000000,
               tsc = tsc_exits [] 0 None, node = node_exits [''1\<newline>''] 1\<rparr>
        \<lparr>messages = [], batched = [], raised = None\<rparr> ''run-1''
        ''console.log(1); process.exit(1)'') =
     [\<lparr>output_id = ''run-1'',
       contents = [\<lparr>content_type = Text, content_value = ''Error: Execution failed''\<rparr>],
       status = ''failed''\<rparr>] \<and>
   executeJsCode \<lparr>import_error = None, boot_error = None, now = 1700000000000,
                  tsc = tsc_exits [] 0 None, node = node_exits [''1\<newline>''] 1\<rparr>
     ''console.log(1); process.exit(1)'' =
     \<lparr>output_str = ''1\<newline>'', error = Some ''Execution failed''\<rparr> \<and>
   \<not> includes_str ''Error: Execution failed'' ''1''"
proof -
  have l: "parseCodeBlockMarkers ''console.log(1); process.exit(1)'' =
      \<lparr>cleanedCode = ''console.log(1); process.exit(1)'', language = Javascript\<rparr>"
    by code_simp
  have "\<not> includes_str ''Error: Execution failed'' ''1''"
    by code_simp
  then show ?thesis
    by (simp add: tracker_after_onClick final_record_script l executeJsOrTs_def
        executeJsCode_def run_node_def node_exits_def truthy_def)
qed

text \<open>
  C2 (amended). A Python run that an exception ends has the run record \<open>failed\<close> with
  exactly one text, the message of the exception. The output captured before the
  exception is not in the record.
\<close>

theorem python_exception_record:
  assumes "language (parseCodeBlockMarkers content) = Python" and "raised py = Some message"
  shows "tracker_after outputs (onClick env py runId content) =
     filter (\<lambda>output. output_id output \<noteq> runId) outputs @
     [\<lparr>output_id = runId,
       contents = [\<lparr>content_type = Text, content_value = message\<rparr>],
       status = ''failed''\<rparr>]"
  using assms by (simp add: tracker_after_onClick final_record_python)

theorem python_exception_record_witness:
  "tracker_after []
     (onClick \<lparr>import_error = None, boot_error = None, now = 1700000000000,
               tsc = tsc_exits [] 0 None, node = node_exits [] 0\<rparr>
        \<lparr>messages = [''Loading numpy''], batched = [], raised = Some ''ValueError: 2''\<rparr>
        ''run-1'' ''import numpy\<newline>raise ValueError(2)'') =
     [\<lparr>output_id = ''run-1'',
       contents = [\<lparr>content_type = Text, content_value = ''ValueError: 2''\<rparr>],
       status = ''failed''\<rparr>]"
proof -
  have l: "language (parseCodeBlockMarkers ''import numpy\<newline>raise ValueError(2)'') = Python"
    by code_simp
  have r: "raised \<lparr>messages = [''Loading numpy''], batched = [], raised = Some ''ValueError: 2''\<rparr> =
      Some ''ValueError: 2''"
    by simp
  from python_exception_record [OF l r, of "[]" _ "''run-1''"] show ?thesis by simp
qed

text \<open>
  C2, as stated, fails on a run that prints a line and then raises: the line was
  captured, and the run record holds the message of the exception only.
\<close>

theorem python_failure_drops_output:
  "tracker_after []
     (onClick \<lparr>import_error = None, boot_error = None, now = 1700000000000,
               tsc = tsc_exits [] 0 None, node = node_exits [] 0\<rparr>
        \<lparr>messages = [], batched = [''1''], raised = Some ''ValueError: 2''\<rparr>
        ''run-1'' ''print(1)\<newline>raise ValueError(2)'') =
     [\<lparr>output_id = ''run-1'',
       contents = [\<lparr>content_type = Text, content_value = ''ValueError: 2''\<rparr>],
       status = ''failed''\<rparr>] \<and>
   stdout_content ''1'' \<notin> set [\<lparr>content_type = Text, content_value = ''ValueError: 2''\<rparr>]"
proof -
  have l: "language (parseCodeBlockMarkers ''print(1)\<newline>raise ValueError(2)'') = Python"
    by code_simp
  show ?thesis
    by (simp add: tracker_after_onClick final_record_python l stdout_content_def)
qed

text \<open>
  C7. The code at a Python run that ends without an exception and printed nothing:
  the run record is \<open>completed\<close> and its contents are empty; no text is synthesized.
\<close>

theorem python_no_output_record:
  "tracker_after []
     (onClick \<lparr>import_error = None, boot_error = None, now = 1700000000000,
               tsc = tsc_exits [] 0 None, node = node_exits [] 0\<rparr>
        \<lparr>messages = [], batched = [], raised = None\<rparr>
        ''run-1'' ''import math\<newline>x = math.sqrt(4)'') =
     [\<lparr>output_id = ''run-1'', contents = [], status = ''completed''\<rparr>]"
proof -
  have l: "language (parseCodeBlockMarkers ''import math\<newline>x = math.sqrt(4)'') = Python"
    by code_simp
  show ?thesis
    by (simp add: tracker_after_onClick final_record_python l)
qed

text \<open>
  C3 (amended). A TypeScript run whose compiler exits with a nonzero code: when the
  compiled file can be read, the run goes on to execute that file, with the result it
  has when the compiler exits with 0; when the file cannot be read, the run fails with
  the fixed message \<^verbatim>\<open>TypeScript compilation failed - could not generate JavaScript file\<close>.
  The diagnostics of the compiler reach neither the result nor the run record.
\<close>

theorem ts_compiler_nonzero_exit:
  assumes "boot_error env = None"
    and "tsc env (tsFilename_of (now env)) code = Tsc_exits errorChunks exitCode compiled"
    and "exitCode \<noteq> 0"
  shows "executeTypeScript env code =
       (case compiled of
          Some js \<Rightarrow> run_node env (jsFilename_of (now env)) js
        | None \<Rightarrow>
            \<lparr>output_str = '''',
             error = Some ''TypeScript compilation failed - could not generate JavaScript file''\<rparr>) \<and>
     executeTypeScript env code =
       executeTypeScript (env\<lparr>tsc := tsc_exits [] 0 compiled\<rparr>) code \<and>
     (compiled = None \<and> import_error env = None \<and>
      parseCodeBlockMarkers content = \<lparr>cleanedCode = code, language = Typescript\<rparr> \<longrightarrow>
        tracker_after outputs (onClick env py runId content) =
          filter (\<lambda>output. output_id output \<noteq> runId) outputs @
          [\<lparr>output_id = runId,
            contents =
              [\<lparr>content_type = Text,
                content_value =
                  ''Error: TypeScript compilation failed - could not generate JavaScript file''\<rparr>],
            status = ''failed''\<rparr>])"
proof -
  have c: "compileTsWithTsc env code (tsFilename_of (now env)) =
      (case compiled of Some js \<Rightarrow> Some (jsFilename_of (now env), js) | None \<Rightarrow> None)"
    using assms(2,3)
    by (simp add: compileTsWithTsc_def replace_ts_js_tsFilename split: option.split)
  have r: "executeTypeScript env code =
      (case compiled of
         Some js \<Rightarrow> run_node env (jsFilename_of (now env)) js
       | None \<Rightarrow>
           \<lparr>output_str = '''',
            error = Some ''TypeScript compilation failed - could not generate JavaScript file''\<rparr>)"
    using assms(1) by (simp add: executeTypeScript_def c split: option.split)
  have c0: "compileTsWithTsc (env\<lparr>tsc := tsc_exits [] 0 compiled\<rparr>) code (tsFilename_of (now env)) =
      (case compiled of Some js \<Rightarrow> Some (jsFilename_of (now env), js) | None \<Rightarrow> None)"
    by (simp add: compileTsWithTsc_def tsc_exits_def replace_ts_js_tsFilename split: option.split)
  have r0: "executeTypeScript (env\<lparr>tsc := tsc_exits [] 0 compiled\<rparr>) code =
      executeTypeScript env code"
    using assms(1) by (simp add: executeTypeScript_def c c0 run_node_def split: option.split)
  have t: "tracker_after outputs (onClick env py runId content) =
      filter (\<lambda>output. output_id output \<noteq> runId) outputs @
      [\<lparr>output_id = runId,
        contents =
          [\<lparr>content_type = Text,
            content_value =
              ''Error: TypeScript compilation failed - could not generate JavaScript file''\<rparr>],
        status = ''failed''\<rparr>]"
    if "compiled = None" and "import_error env = None"
      and "parseCodeBlockMarkers content = \<lparr>cleanedCode = code, language = Typescript\<rparr>"
    using that r
    by (simp add: tracker_after_onClick final_record_script executeJsOrTs_def truthy_def)
  show ?thesis
    using r r0 t by simp
qed

theorem ts_compiler_nonzero_exit_witness:
  "executeTypeScript
     \<lparr>import_error = None, boot_error = None, now = 1700000000000,
      tsc = tsc_exits [''code-1700000000000.ts(1,7): error TS2322''] 2 (Some ''var x = 1;''),
      node = node_exits [''1\<newline>''] 0\<rparr>
     ''const x: number = 1; console.log(x)'' =
   \<lparr>output_str = ''1\<newline>'', error = None\<rparr>"
proof -
  define env where "env = \<lparr>import_error = None, boot_error = None, now = 1700000000000,
      tsc = tsc_exits [''code-1700000000000.ts(1,7): error TS2322''] 2 (Some ''var x = 1;''),
      node = node_exits [''1\<newline>''] 0\<rparr>"
  have b: "boot_error env = None" by (simp add: env_def)
  have c: "tsc env (tsFilename_of (now env)) ''const x: number = 1; console.log(x)'' =
      Tsc_exits [''code-1700000000000.ts(1,7): error TS2322''] 2 (Some ''var x = 1;'')"
    by (simp add: env_def tsc_exits_def)
  have n: "(2::int) \<noteq> 0" by simp
  from ts_compiler_nonzero_exit [OF b c n]
  have "executeTypeScript env ''const x: number = 1; console.log(x)'' =
      run_node env (jsFilename_of (now env)) ''var x = 1;''"
    by simp
  then show ?thesis
    by (simp add: env_def run_node_def node_exits_def)
qed

text \<open>
  C3, as stated, fails when the compiler prints a diagnostic and leaves no file:
  the failure message is the fixed one, and the diagnostic is not part of it.
\<close>

theorem ts_failure_message_not_diagnostic:
  "executeTypeScript
     \<lparr>import_error = None, boot_error = None, now = 1700000000000,
      tsc = tsc_exits [''code-1700000000000.ts(1,19): error TS1109''] 2 None,
      node = node_exits [] 0\<rparr>
     ''const x: number = ;'' =
   \<lparr>output_str = '''',
    error = Some ''TypeScript compilation failed - could not generate JavaScript file''\<rparr> \<and>
   tracker_after []
     (onClick \<lparr>import_error = None, boot_error = None, now = 1700000000000,
               tsc = tsc_exits [''code-1700000000000.ts(1,19): error TS1109''] 2 None,
               node = node_exits [] 0\<rparr>
        \<lparr>messages = [], batched = [], raised = None\<rparr> ''run-1'' ''const x: number = ;'') =
     [\<lparr>output_id = ''run-1'',
       contents =
         [\<lparr>content_type = Text,
           content_value =
             ''Error: TypeScript compilation failed - could not generate JavaScript file''\<rparr>],
       status = ''failed''\<rparr>] \<and>
   \<not> includes_str ''Error: TypeScript compilation failed - could not generate JavaScript file''
       ''error TS1109''"
proof -
  have l: "parseCodeBlockMarkers ''const x: number = ;'' =
      \<lparr>cleanedCode = ''const x: number = ;'', language = Typescript\<rparr>"
    by code_simp
  have i: "\<not> includes_str ''Error: TypeScript compilation failed - could not generate JavaScript file''
       ''error TS1109''"
    by code_simp
  have e: "executeTypeScript
     \<lparr>import_error = None, boot_error = None, now = 1700000000000,
      tsc = tsc_exits [''code-1700000000000.ts(1,19): error TS1109''] 2 None,
      node = node_exits [] 0\<rparr>
     ''const x: number = ;'' =
   \<lparr>output_str = '''',
    error = Some ''TypeScript compilation failed - could not generate JavaScript file''\<rparr>"
    by (simp add: executeTypeScript_def compileTsWithTsc_def tsc_exits_def)
  show ?thesis
    using i e
    by (simp add: tracker_after_onClick final_record_script l executeJsOrTs_def truthy_def)
qed

text \<open>
  C4 (amended). The statuses that a run writes are \<open>in_progress\<close> for the record it
  appends, then \<open>loading_packages\<close> (twice for JavaScript and TypeScript, once for
  each package message for Python, which may be none). When every step that the
  handler awaits settles, exactly one of \<open>completed\<close> and \<open>failed\<close> follows, after
  which the run writes nothing. When an awaited step never settles, no terminal status
  is written: the run stays at its last status. All updates carry the id of the run;
  the first appends, the others replace.
\<close>

theorem run_status_sequence:
  "\<exists>r0 rs.
     onClick_awaiting settles env py runId content = Append r0 # map Replace rs \<and>
     (\<forall>r \<in> set (r0 # rs). output_id r = runId) \<and>
     (settles \<longrightarrow>
        (\<exists>t. map status (r0 # rs) =
               ''in_progress'' #
               replicate (if language (parseCodeBlockMarkers content) = Python
                          then length (messages py) else 2) ''loading_packages'' @ [t] \<and>
             (t = ''completed'' \<or> t = ''failed''))) \<and>
     (\<not> settles \<longrightarrow>
        map status (r0 # rs) =
          ''in_progress'' #
          replicate (if language (parseCodeBlockMarkers content) = Python
                     then length (messages py) else 2) ''loading_packages'')"
proof (cases settles)
  case True
  obtain r0 rs t where "onClick env py runId content = Append r0 # map Replace rs"
    and "\<forall>r \<in> set (r0 # rs). output_id r = runId"
    and "map status (r0 # rs) =
      ''in_progress'' #
      replicate (if language (parseCodeBlockMarkers content) = Python
                 then length (messages py) else 2) ''loading_packages'' @ [t]"
    and "t = ''completed'' \<or> t = ''failed''"
    using onClick_status_sequence [of env py runId content] by (elim exE conjE)
  then have "onClick_awaiting settles env py runId content = Append r0 # map Replace rs \<and>
     (\<forall>r \<in> set (r0 # rs). output_id r = runId) \<and>
     (settles \<longrightarrow>
        (\<exists>t. map status (r0 # rs) =
               ''in_progress'' #
               replicate (if language (parseCodeBlockMarkers content) = Python
                          then length (messages py) else 2) ''loading_packages'' @ [t] \<and>
             (t = ''completed'' \<or> t = ''failed''))) \<and>
     (\<not> settles \<longrightarrow>
        map status (r0 # rs) =
          ''in_progress'' #
          replicate (if language (parseCodeBlockMarkers content) = Python
                     then length (messages py) else 2) ''loading_packages'')"
    using True by (simp add: onClick_awaiting_def)
  then show ?thesis
    by - (rule exI [of _ r0], rule exI [of _ rs], assumption)
next
  case False
  define mk where "mk = (\<lambda>message. \<lparr>output_id = runId,
      contents = [\<lparr>content_type = Text, content_value = message\<rparr>],
      status = ''loading_packages''\<rparr>)"
  define r0 where "r0 = \<lparr>output_id = runId, contents = [], status = ''in_progress''\<rparr>"
  define r1 where "r1 = \<lparr>output_id = runId,
      contents = [\<lparr>content_type = Text,
                   content_value = ''Running JavaScript in WebContainer...''\<rparr>],
      status = ''loading_packages''\<rparr>"
  define r2 where "r2 = \<lparr>output_id = runId,
      contents = [\<lparr>content_type = Text,
                   content_value =
                     ''Running '' @
                     (if language (parseCodeBlockMarkers content) = Typescript then ''TypeScript''
                      else ''JavaScript'') @
                     '' code...''\<rparr>],
      status = ''loading_packages''\<rparr>"
  define rs where "rs = (if language (parseCodeBlockMarkers content) = Python
      then map mk (messages py) else [r1, r2])"
  have l: "language (parseCodeBlockMarkers content) \<noteq> Python \<longleftrightarrow>
      language (parseCodeBlockMarkers content) = Javascript \<or>
      language (parseCodeBlockMarkers content) = Typescript"
    by (cases "language (parseCodeBlockMarkers content)") simp_all
  have sh: "onClick_awaiting settles env py runId content = Append r0 # map Replace rs"
    using False l
    by (simp add: onClick_awaiting_def Let_def rs_def r0_def r1_def r2_def mk_def comp_def)
  have ids: "\<forall>r \<in> set (r0 # rs). output_id r = runId"
    by (auto simp: rs_def r0_def r1_def r2_def mk_def)
  have "map status (map mk (messages py)) =
      replicate (length (messages py)) ''loading_packages''"
    by (simp add: mk_def comp_def map_replicate_const)
  then have st: "map status (r0 # rs) =
      ''in_progress'' #
      replicate (if language (parseCodeBlockMarkers content) = Python
                 then length (messages py) else 2) ''loading_packages''"
    by (simp add: rs_def r0_def r1_def r2_def numeral_2_eq_2)
  have "onClick_awaiting settles env py runId content = Append r0 # map Replace rs \<and>
     (\<forall>r \<in> set (r0 # rs). output_id r = runId) \<and>
     (settles \<longrightarrow>
        (\<exists>t. map status (r0 # rs) =
               ''in_progress'' #
               replicate (if language (parseCodeBlockMarkers content) = Python
                          then length (messages py) else 2) ''loading_packages'' @ [t] \<and>
             (t = ''completed'' \<or> t = ''failed''))) \<and>
     (\<not> settles \<longrightarrow>
        map status (r0 # rs) =
          ''in_progress'' #
          replicate (if language (parseCodeBlockMarkers content) = Python
                     then length (messages py) else 2) ''loading_packages'')"
    using sh ids st False by simp
  then show ?thesis
    by - (rule exI [of _ r0], rule exI [of _ rs], assumption)
qed

theorem run_status_sequence_witness:
  "(\<exists>r0 rs t.
      onClick_awaiting True
        \<lparr>import_error = None, boot_error = None, now = 1700000000000,
         tsc = tsc_exits [] 0 None, node = node_exits [''1\<newline>''] 0\<rparr>
        \<lparr>messages = [], batched = [], raised = None\<rparr> ''run-1'' ''console.log(1)'' =
        Append r0 # map Replace rs \<and>
      (\<forall>r \<in> set (r0 # rs). output_id r = ''run-1'') \<and>
      map status (r0 # rs) = [''in_progress'', ''loading_packages'', ''loading_packages'', t] \<and>
      (t = ''completed'' \<or> t = ''failed'')) \<and>
   (\<exists>r0 rs.
      onClick_awaiting False
        \<lparr>import_error = None, boot_error = None, now = 1700000000000,
         tsc = tsc_exits [] 0 None, node = node_exits [] 0\<rparr>
        \<lparr>messages = [], batched = [], raised = None\<rparr> ''run-2'' ''while(true){}'' =
        Append r0 # map Replace rs \<and>
      (\<forall>r \<in> set (r0 # rs). output_id r = ''run-2'') \<and>
      map status (r0 # rs) = [''in_progress'', ''loading_packages'', ''loading_packages''])"
proof -
  have l: "language (parseCodeBlockMarkers ''console.log(1)'') = Javascript"
    and l': "language (parseCodeBlockMarkers ''while(true){}'') = Javascript"
    by code_simp+
  show ?thesis
    using run_status_sequence [of True
        "\<lparr>import_error = None, boot_error = None, now = 1700000000000,
          tsc = tsc_exits [] 0 None, node = node_exits [''1\<newline>''] 0\<rparr>"
        "\<lparr>messages = [], batched = [], raised = None\<rparr>" "''run-1''" "''console.log(1)''"]
      run_status_sequence [of False
        "\<lparr>import_error = None, boot_error = None, now = 1700000000000,
          tsc = tsc_exits [] 0 None, node = node_exits [] 0\<rparr>"
        "\<lparr>messages = [], batched = [], raised = None\<rparr>" "''run-2''" "''while(true){}''"]
    by (simp add: l l' numeral_2_eq_2)
qed

text \<open>
  C4, as stated, fails on the first update of any run: the appended record has
  status \<open>in_progress\<close>, which is none of the four statuses of the claim; and a Python
  run without package messages reaches \<open>completed\<close> without \<open>loading_packages\<close>.
\<close>

theorem initial_status_not_queued:
  "map (\<lambda>u. status (record_of u))
     (onClick \<lparr>import_error = None, boot_error = None, now = 1700000000000,
               tsc = tsc_exits [] 0 None, node = node_exits [] 0\<rparr>
        \<lparr>messages = [], batched = [''1''], raised = None\<rparr> ''run-1'' ''print(1)'') =
     [''in_progress'', ''completed''] \<and>
   ''in_progress'' \<notin> {''queued'', ''loading_packages'', ''completed'', ''failed''}"
proof -
  have l: "language (parseCodeBlockMarkers ''print(1)'') = Python"
    by code_simp
  show ?thesis
    by (simp add: onClick_def l Let_def)
qed

section \<open>Claims about the sandbox\<close>

text \<open>
  C8 (amended). Whatever calls of \<^verbatim>\<open>getWebContainer\<close> and whatever end of the boot
  follow each other, \<^verbatim>\<open>WebContainer.boot\<close> is called at most once. Where \<^verbatim>\<open>window\<close>
  is defined, the first call creates the boot promise and every call, before or after
  the boot resolves, returns that one promise. Where \<^verbatim>\<open>window\<close> is not defined
  (server-side rendering), no boot promise is created and each call returns a fresh
  promise.
\<close>

theorem sandbox_boots_at_most_once:
  assumes "run_events has_window es initial_state = (ps, s')"
  shows "boots s' \<le> 1 \<and>
     (has_window \<longrightarrow>
        (ps \<noteq> [] \<longrightarrow> boots s' = 1 \<and> webcontainerInstance s' = Some (hd ps)) \<and>
        (\<forall>p \<in> set ps. p = hd ps)) \<and>
     (\<not> has_window \<longrightarrow> boots s' = 0 \<and> webcontainerInstance s' = None \<and> distinct ps)"
proof (cases has_window)
  case True
  have "webcontainerInstance initial_state = None" by (simp add: initial_state_def)
  from run_events_fresh [OF this] assms True
  have "(ps = [] \<and> boots s' = boots initial_state \<and> webcontainerInstance s' = None) \<or>
     (ps \<noteq> [] \<and> boots s' = boots initial_state + 1 \<and>
      webcontainerInstance s' = Some (promises initial_state) \<and>
      (\<forall>q \<in> set ps. q = promises initial_state))"
    by simp
  then show ?thesis
    using True by (cases ps) (auto simp: initial_state_def)
next
  case False
  with run_events_no_window [of es initial_state ps s'] assms show ?thesis
    by (simp add: initial_state_def)
qed

theorem sandbox_boots_at_most_once_witness:
  "run_events True [Call, Call, Boot_resolves, Call] initial_state =
     ([0, 0, 0], \<lparr>webcontainerInstance = Some 0, loaded = True, promises = 1, boots = 1\<rparr>) \<and>
   boots \<lparr>webcontainerInstance = Some 0, loaded = True, promises = 1, boots = 1\<rparr> \<le> 1"
proof -
  have r: "run_events True [Call, Call, Boot_resolves, Call] initial_state =
     ([0, 0, 0], \<lparr>webcontainerInstance = Some 0, loaded = True, promises = 1, boots = 1\<rparr>)"
    by (simp add: initial_state_def getWebContainer_def)
  from sandbox_boots_at_most_once [OF r] show ?thesis
    using r by simp
qed

text \<open>
  C8, as stated, fails where \<^verbatim>\<open>window\<close> is not defined: two calls return two
  different promises, and the first call creates no boot promise.
\<close>

theorem no_window_calls_not_memoized:
  "run_events False [Call, Call] initial_state =
     ([0, 1], \<lparr>webcontainerInstance = None, loaded = False, promises = 2, boots = 0\<rparr>)"
  by (simp add: initial_state_def getWebContainer_def)

text \<open>
  C9. The code at two JavaScript runs that read the same value of the clock: both
  write the file of the same name, and the source of the first run is overwritten by
  the source of the second before either process has been spawned.
\<close>

theorem same_millisecond_same_file:
  "jsFilename_of 1700000000000 = ''code-1700000000000.js'' \<and>
   executeJsCode_write 1700000000000 ''console.log(2)''
     (executeJsCode_write 1700000000000 ''console.log(1)'' Map.empty) =
   [''code-1700000000000.js'' \<mapsto> ''console.log(2)'']"
proof -
  have n: "jsFilename_of 1700000000000 = ''code-1700000000000.js''"
    by (simp add: jsFilename_of_def string_of_nat.simps digit_char_def)
  show ?thesis
    by (simp add: executeJsCode_write_def writeFile_def n)
qed

end
